theory Spec2Isabelle
  imports Main
begin

section \<open>Data model of \<open>upsonicai.py\<close>\<close>

text \<open>
  A value decoded from a JSON body by \<open>response.json()\<close>: Python's \<open>None\<close>, \<open>bool\<close>,
  number, \<open>str\<close>, \<open>list\<close> and \<open>dict\<close>. A dict is kept as the list of its items and read
  with \<open>map_of\<close>. A number is kept as its literal: the program never computes with one.
\<close>

datatype json_value =
    JNull
  | JBool bool
  | JNum string
  | JStr string
  | JArr "json_value list"
  | JObj "(string \<times> json_value) list"

text \<open>
  The exceptions a call can end with. \<open>HTTPException\<close> carries \<open>status_code\<close> and
  \<open>detail\<close>, as the source raises it. The others are raised by the interpreter and the
  libraries under the source's own statements: \<open>TransportError\<close> by \<open>requests.post\<close>
  when no response arrives, \<open>JSONDecodeError\<close> by \<open>response.json()\<close> on a body that
  is not JSON, \<open>AttributeError\<close> by \<open>.get\<close> on a value that is not a dict,
  \<open>SubscriptError\<close> by \<open>[:10]\<close> on a value that cannot be sliced (Python's TypeError;
  KeyError for a dict from Python 3.12 on), \<open>ValidationError\<close> by the constructor of
  \<open>SearchResult\<close> on a field that is not a \<open>str\<close>.
\<close>

datatype error =
    HTTPException int string
  | TransportError
  | JSONDecodeError
  | AttributeError
  | SubscriptError
  | ValidationError

text \<open>\<open>class DoubleSearchInput(BaseModel)\<close>\<close>

record DoubleSearchInput =
  keyword1 :: string
  keyword2 :: string

text \<open>\<open>class SearchResult(ObjectResponse)\<close>\<close>

record SearchResult =
  title :: string
  link :: string
  snippet :: string

text \<open>\<open>class DoubleSearchResponse(ObjectResponse)\<close>\<close>

record DoubleSearchResponse =
  keyword1_results :: "SearchResult list"
  keyword2_results :: "SearchResult list"

text \<open>
  The arguments of \<open>requests.post(url, headers=headers, data=payload)\<close> and the three
  attributes of its result that the source reads: \<open>status_code\<close>, \<open>text\<close> and the value
  of \<open>json()\<close> (\<open>None\<close> when the body does not decode).
\<close>

record http_request =
  url :: string
  headers :: "(string \<times> string) list"
  data :: string

record http_response =
  status_code :: int
  resp_text :: string
  json :: "json_value option"

text \<open>
  What the process and the libraries give the tool: \<open>os.getenv\<close>, \<open>json.dumps\<close> and
  \<open>requests.post\<close>, which answers a request with a response or raises.
\<close>

record sys =
  getenv :: "string \<Rightarrow> string option"
  json_dumps :: "json_value \<Rightarrow> string"
  post :: "http_request \<Rightarrow> error + http_response"

section \<open>\<open>SerpAPITool.search\<close>\<close>

text \<open>\<open>d.get(key, default)\<close> on a dict.\<close>

definition dict_get :: "(string \<times> json_value) list \<Rightarrow> string \<Rightarrow> json_value \<Rightarrow> json_value" where
  "dict_get d k dflt = (case map_of d k of None \<Rightarrow> dflt | Some v \<Rightarrow> v)"

text \<open>
  The constructor \<open>SearchResult(title=t, link=l, snippet=s)\<close>: each field is declared
  \<open>str\<close>, and the model's validation accepts a \<open>str\<close> as it is and rejects every other
  JSON value.
\<close>

fun SearchResult_init :: "json_value \<Rightarrow> json_value \<Rightarrow> json_value \<Rightarrow> error + SearchResult" where
  "SearchResult_init (JStr t) (JStr l) (JStr s) = Inr \<lparr>title = t, link = l, snippet = s\<rparr>"
| "SearchResult_init _ _ _ = Inl ValidationError"

text \<open>The body of the list comprehension, for one element \<open>result\<close> of the slice.\<close>

fun make_result :: "json_value \<Rightarrow> error + SearchResult" where
  "make_result (JObj result) =
     SearchResult_init
       (dict_get result ''title'' (JStr ''No Title''))
       (dict_get result ''link'' (JStr ''#''))
       (dict_get result ''snippet'' (JStr ''No Description''))"
| "make_result _ = Inl AttributeError"

text \<open>The comprehension over a list: elements in order, the first exception ends it.\<close>

fun make_results :: "json_value list \<Rightarrow> error + SearchResult list" where
  "make_results [] = Inr []"
| "make_results (result # rest) =
     (case make_result result of
        Inl e \<Rightarrow> Inl e
      | Inr r \<Rightarrow> (case make_results rest of Inl e \<Rightarrow> Inl e | Inr rs \<Rightarrow> Inr (r # rs)))"

text \<open>
  \<open>[SearchResult(...) for result in search_results[:10]]\<close> for whatever value
  \<open>search_results\<close> holds. A \<open>str\<close> slices to a \<open>str\<close>, whose elements are one-character
  strings without \<open>.get\<close>.
\<close>

fun comprehension :: "json_value \<Rightarrow> error + SearchResult list" where
  "comprehension (JArr search_results) = make_results (take 10 search_results)"
| "comprehension (JStr s) = (if take 10 s = [] then Inr [] else Inl AttributeError)"
| "comprehension _ = Inl SubscriptError"

text \<open>The branch \<open>response.status_code == 200\<close>, from \<open>response.json()\<close> on.\<close>

definition on_ok :: "http_response \<Rightarrow> error + SearchResult list" where
  "on_ok response =
     (case json response of
        None \<Rightarrow> Inl JSONDecodeError
      | Some (JObj body) \<Rightarrow> comprehension (dict_get body ''organic'' (JArr []))
      | Some _ \<Rightarrow> Inl AttributeError)"

definition search_request :: "sys \<Rightarrow> string \<Rightarrow> string \<Rightarrow> http_request" where
  "search_request s api_key query =
     \<lparr>url = ''https://google.serper.dev/search'',
      headers = [(''X-API-KEY'', api_key), (''Content-Type'', ''application/json'')],
      data = json_dumps s (JObj [(''q'', JStr query)])\<rparr>"

text \<open>
  \<open>search(query)\<close>. The result is paired with the requests the call has sent, in order.
  \<open>if not api_key\<close> holds for \<open>None\<close> and for the empty string.
\<close>

definition search :: "sys \<Rightarrow> string \<Rightarrow> http_request list \<times> (error + SearchResult list)" where
  "search s query =
     (case getenv s ''SERPAPI_API_KEY'' of
        None \<Rightarrow> ([], Inl (HTTPException 500 ''SerpAPI API Key not found!''))
      | Some api_key \<Rightarrow>
          if api_key = [] then ([], Inl (HTTPException 500 ''SerpAPI API Key not found!''))
          else
            (let request = search_request s api_key query in
             case post s request of
               Inl e \<Rightarrow> ([request], Inl e)
             | Inr response \<Rightarrow>
                 if status_code response = 200 then ([request], on_ok response)
                 else ([request],
                       Inl (HTTPException 500 (''SerpAPI Request Failed: '' @ resp_text response)))))"

text \<open>
  The shape the provider's interface gives an entry of \<open>organic\<close>: an object whose
  \<open>title\<close>, \<open>link\<close> and \<open>snippet\<close>, where present, are strings.
\<close>

definition str_or_missing :: "(string \<times> json_value) list \<Rightarrow> string \<Rightarrow> bool" where
  "str_or_missing e k = (case map_of e k of None \<Rightarrow> True | Some (JStr _) \<Rightarrow> True | Some _ \<Rightarrow> False)"

fun entry_shaped :: "json_value \<Rightarrow> bool" where
  "entry_shaped (JObj e) =
     (str_or_missing e ''title'' \<and> str_or_missing e ''link'' \<and> str_or_missing e ''snippet'')"
| "entry_shaped _ = False"

section \<open>\<open>perform_double_search\<close>\<close>

text \<open>\<open>search_agent = AgentConfiguration(...)\<close>\<close>

record AgentConfiguration =
  job_title :: string
  company_url :: string
  company_objective :: string
  reflection :: bool

definition search_agent :: AgentConfiguration where
  "search_agent =
     \<lparr>job_title = ''Double Keyword Search Analyst'',
      company_url = ''https://upsonic.ai'',
      company_objective = ''Fetch and analyze the latest search results for two different keywords.'',
      reflection = True\<rparr>"

text \<open>
  A \<open>Task\<close> as the handler builds and reads it: the three constructor arguments, and
  the \<open>response\<close> attribute, \<open>None\<close> until a run of the agent sets it. The tool and the
  response format are passed by name.
\<close>

datatype tool = SerpAPITool

datatype format = DoubleSearchResponse_format

record Task =
  description :: string
  tools :: "tool list"
  response_format :: format
  response :: "DoubleSearchResponse option"

definition Task_init :: "string \<Rightarrow> tool list \<Rightarrow> format \<Rightarrow> Task" where
  "Task_init d ts f = \<lparr>description = d, tools = ts, response_format = f, response = None\<rparr>"

text \<open>
  \<open>client.agent(search_agent, task)\<close> belongs to the agent library: it is a parameter of
  the model. A run takes the configuration, the task and the state \<open>'w\<close> of everything
  the run can reach (the client, its server, the language model, the provider); it
  returns the task as the run has left it, or the exception the run raised, and the
  new state.
\<close>

type_synonym 'w agent = "AgentConfiguration \<Rightarrow> Task \<Rightarrow> 'w \<Rightarrow> (error + Task) \<times> 'w"

definition search_task1 :: "DoubleSearchInput \<Rightarrow> Task" where
  "search_task1 input_data =
     Task_init (''Perform a web search for '' @ keyword1 input_data @ '' and return the top results.'')
       [SerpAPITool] DoubleSearchResponse_format"

definition search_task2 :: "DoubleSearchInput \<Rightarrow> Task" where
  "search_task2 input_data =
     Task_init (''Perform a web search for '' @ keyword2 input_data @ '' and return the top results.'')
       [SerpAPITool] DoubleSearchResponse_format"

text \<open>The values of the dict the handler returns.\<close>

datatype field_value = StrValue string | ResultsValue "SearchResult list"

text \<open>
  The handler. \<open>not search_data1\<close> holds exactly when the attribute is \<open>None\<close>: an
  instance of \<open>DoubleSearchResponse\<close> is truthy whatever its lists hold. An exception
  of a run leaves the handler at once, so the second run does not start after a first
  one that raised.
\<close>

definition perform_double_search ::
  "'w agent \<Rightarrow> DoubleSearchInput \<Rightarrow> 'w \<Rightarrow> (error + (string \<times> field_value) list) \<times> 'w" where
  "perform_double_search agent input_data w =
     (case agent search_agent (search_task1 input_data) w of
        (Inl e, w1) \<Rightarrow> (Inl e, w1)
      | (Inr task1, w1) \<Rightarrow>
          (case agent search_agent (search_task2 input_data) w1 of
             (Inl e, w2) \<Rightarrow> (Inl e, w2)
           | (Inr task2, w2) \<Rightarrow>
               (case (response task1, response task2) of
                  (Some search_data1, Some search_data2) \<Rightarrow>
                    (Inr [(''keyword1'', StrValue (keyword1 input_data)),
                          (''keyword1_results'', ResultsValue (keyword1_results search_data1)),
                          (''keyword2'', StrValue (keyword2 input_data)),
                          (''keyword2_results'', ResultsValue (keyword2_results search_data2))],
                     w2)
                | _ \<Rightarrow> (Inl (HTTPException 500 ''Failed to fetch search results.''), w2))))"

text \<open>
  What a run of the agent amounts to for the handler: the exception it raised, or the
  response it left in the task. A run has failed when it raised or left no response.
\<close>

definition outcome :: "error + Task \<Rightarrow> error + DoubleSearchResponse option" where
  "outcome r = (case r of Inl e \<Rightarrow> Inl e | Inr t \<Rightarrow> Inr (response t))"

definition task_failed :: "error + Task \<Rightarrow> bool" where
  "task_failed r = (case r of Inl e \<Rightarrow> True | Inr t \<Rightarrow> response t = None)"

section \<open>Result schema\<close>

text \<open>
  Modelled from the spec: the serializer and the validator of ResultSchema, which the
  source only declares (the classes \<open>SearchResult\<close> and \<open>DoubleSearchResponse\<close>; the
  code behind them is the model library's). Serialization writes every declared field.
  Validation is structural: \<open>keyword1_results\<close> and \<open>keyword2_results\<close> are required
  arrays, a field of a hit must be a string where present and takes its default where
  missing, unknown fields are ignored, and a failure names the path of the offending
  field.
\<close>

datatype path_elem = Field string | Index nat

datatype schema_error = SchemaMismatchError "path_elem list"

definition SearchResult_to_json :: "SearchResult \<Rightarrow> json_value" where
  "SearchResult_to_json h =
     JObj [(''title'', JStr (title h)), (''link'', JStr (link h)), (''snippet'', JStr (snippet h))]"

definition DoubleSearchResponse_to_json :: "DoubleSearchResponse \<Rightarrow> json_value" where
  "DoubleSearchResponse_to_json r =
     JObj [(''keyword1_results'', JArr (map SearchResult_to_json (keyword1_results r))),
           (''keyword2_results'', JArr (map SearchResult_to_json (keyword2_results r)))]"

definition validate_str ::
  "path_elem list \<Rightarrow> (string \<times> json_value) list \<Rightarrow> string \<Rightarrow> string \<Rightarrow> schema_error + string" where
  "validate_str path obj k dflt =
     (case map_of obj k of
        None \<Rightarrow> Inr dflt
      | Some (JStr s) \<Rightarrow> Inr s
      | Some _ \<Rightarrow> Inl (SchemaMismatchError (path @ [Field k])))"

fun validate_SearchResult :: "path_elem list \<Rightarrow> json_value \<Rightarrow> schema_error + SearchResult" where
  "validate_SearchResult path (JObj obj) =
     (case validate_str path obj ''title'' ''No Title'' of
        Inl e \<Rightarrow> Inl e
      | Inr t \<Rightarrow>
          (case validate_str path obj ''link'' ''#'' of
             Inl e \<Rightarrow> Inl e
           | Inr l \<Rightarrow>
               (case validate_str path obj ''snippet'' ''No Description'' of
                  Inl e \<Rightarrow> Inl e
                | Inr s \<Rightarrow> Inr \<lparr>title = t, link = l, snippet = s\<rparr>)))"
| "validate_SearchResult path _ = Inl (SchemaMismatchError path)"

fun validate_list :: "path_elem list \<Rightarrow> nat \<Rightarrow> json_value list \<Rightarrow> schema_error + SearchResult list" where
  "validate_list path i [] = Inr []"
| "validate_list path i (x # xs) =
     (case validate_SearchResult (path @ [Index i]) x of
        Inl e \<Rightarrow> Inl e
      | Inr h \<Rightarrow> (case validate_list path (Suc i) xs of Inl e \<Rightarrow> Inl e | Inr hs \<Rightarrow> Inr (h # hs)))"

definition validate_results ::
  "(string \<times> json_value) list \<Rightarrow> string \<Rightarrow> schema_error + SearchResult list" where
  "validate_results obj k =
     (case map_of obj k of
        Some (JArr xs) \<Rightarrow> validate_list [Field k] 0 xs
      | _ \<Rightarrow> Inl (SchemaMismatchError [Field k]))"

fun validate_DoubleSearchResponse :: "json_value \<Rightarrow> schema_error + DoubleSearchResponse" where
  "validate_DoubleSearchResponse (JObj obj) =
     (case validate_results obj ''keyword1_results'' of
        Inl e \<Rightarrow> Inl e
      | Inr r1 \<Rightarrow>
          (case validate_results obj ''keyword2_results'' of
             Inl e \<Rightarrow> Inl e
           | Inr r2 \<Rightarrow> Inr \<lparr>keyword1_results = r1, keyword2_results = r2\<rparr>))"
| "validate_DoubleSearchResponse _ = Inl (SchemaMismatchError [])"

section \<open>Concrete inputs\<close>

text \<open>
  \<open>json.dumps\<close> with its default arguments, on the values of \<open>json_value\<close>: the
  separators are \<open>, \<close> and \<open>: \<close>, and a string is written between double quotes with
  the quote, the backslash and every character that is not printable ASCII escaped.
  A number is written as its literal.
\<close>

definition hex_digit :: "nat \<Rightarrow> char" where
  "hex_digit n = ''0123456789abcdef'' ! n"

definition escape_char :: "char \<Rightarrow> string" where
  "escape_char c =
     (if c = CHR 0x22 then [CHR 0x5C, CHR 0x22]
      else if c = CHR 0x5C then [CHR 0x5C, CHR 0x5C]
      else if c = CHR 0x0A then [CHR 0x5C, CHR ''n'']
      else if c = CHR 0x0D then [CHR 0x5C, CHR ''r'']
      else if c = CHR 0x09 then [CHR 0x5C, CHR ''t'']
      else if c = CHR 0x08 then [CHR 0x5C, CHR ''b'']
      else if c = CHR 0x0C then [CHR 0x5C, CHR ''f'']
      else if (of_char c :: nat) < 0x20 \<or> 0x7E < (of_char c :: nat)
        then [CHR 0x5C, CHR ''u'', CHR ''0'', CHR ''0'',
              hex_digit ((of_char c :: nat) div 16), hex_digit ((of_char c :: nat) mod 16)]
      else [c])"

definition dumps_str :: "string \<Rightarrow> string" where
  "dumps_str s = CHR 0x22 # concat (map escape_char s) @ [CHR 0x22]"

fun join :: "string \<Rightarrow> string list \<Rightarrow> string" where
  "join sep [] = []"
| "join sep [x] = x"
| "join sep (x # y # ys) = x @ sep @ join sep (y # ys)"

fun dumps :: "json_value \<Rightarrow> string" where
  "dumps JNull = ''null''"
| "dumps (JBool b) = (if b then ''true'' else ''false'')"
| "dumps (JNum n) = n"
| "dumps (JStr s) = dumps_str s"
| "dumps (JArr xs) = ''['' @ join '', '' (map dumps xs) @ '']''"
| "dumps (JObj kvs) =
     ''{'' @ join '', '' (map (\<lambda>(k, v). dumps_str k @ '': '' @ dumps v) kvs) @ ''}''"

text \<open>
  A process with an API key whose provider answers every request with \<open>resp\<close>, and one
  without a key; \<open>json.dumps\<close> is not evaluated with these two.
\<close>

definition sys_answering :: "http_response \<Rightarrow> sys" where
  "sys_answering resp =
     \<lparr>getenv = (\<lambda>name. if name = ''SERPAPI_API_KEY'' then Some ''k'' else None),
      json_dumps = (\<lambda>v. []),
      post = (\<lambda>request. Inr resp)\<rparr>"

definition sys_without_key :: sys where
  "sys_without_key =
     \<lparr>getenv = (\<lambda>name. None), json_dumps = (\<lambda>v. []), post = (\<lambda>request. Inl TransportError)\<rparr>"

definition ok_response :: "json_value \<Rightarrow> http_response" where
  "ok_response body = \<lparr>status_code = 200, resp_text = [], json = Some body\<rparr>"

definition entry_X :: json_value where
  "entry_X = JObj [(''title'', JStr ''X'')]"

definition entry_full :: json_value where
  "entry_full = JObj [(''title'', JStr ''T''), (''link'', JStr ''L''), (''snippet'', JStr ''S'')]"

definition eleven_entries :: "json_value list" where
  "eleven_entries =
     [entry_full, entry_X, entry_X, entry_X, entry_X, entry_X, entry_X, entry_X, entry_X,
      entry_full, entry_X]"

definition entry_empty :: json_value where
  "entry_empty = JObj []"

definition hit_X :: SearchResult where
  "hit_X = \<lparr>title = ''X'', link = ''#'', snippet = ''No Description''\<rparr>"

definition hit_full :: SearchResult where
  "hit_full = \<lparr>title = ''T'', link = ''L'', snippet = ''S''\<rparr>"

definition hit_default :: SearchResult where
  "hit_default = \<lparr>title = ''No Title'', link = ''#'', snippet = ''No Description''\<rparr>"

text \<open>
  Three processes with a key and \<open>json.dumps\<close> as above. The provider of
  \<open>sys_expecting\<close> answers with a hit the one request that is a POST to the search
  endpoint with the key in \<open>X-API-KEY\<close> and the payload \<open>{"q": " Rust  LANG "}\<close>, and
  refuses every other request. The provider of \<open>sys_rust_only\<close> has one hit for the
  query of the task for \<open>rust\<close> and an empty \<open>organic\<close> array for every other query. The
  provider of \<open>sys_unreachable\<close> cannot be reached.
\<close>

definition sys_expecting :: sys where
  "sys_expecting =
     \<lparr>getenv = (\<lambda>name. if name = ''SERPAPI_API_KEY'' then Some ''k'' else None),
      json_dumps = dumps,
      post = (\<lambda>request.
        if request =
             \<lparr>url = ''https://google.serper.dev/search'',
              headers = [(''X-API-KEY'', ''k''), (''Content-Type'', ''application/json'')],
              data = ''{'' @ [CHR 0x22] @ ''q'' @ [CHR 0x22] @ '': '' @
                     [CHR 0x22] @ '' Rust  LANG '' @ [CHR 0x22] @ ''}''\<rparr>
        then Inr \<lparr>status_code = 200, resp_text = [],
                  json = Some (JObj [(''organic'', JArr [JObj [(''title'', JStr ''X'')]])])\<rparr>
        else Inr \<lparr>status_code = 400, resp_text = ''Bad Request'', json = None\<rparr>)\<rparr>"

definition sys_rust_only :: sys where
  "sys_rust_only =
     \<lparr>getenv = (\<lambda>name. if name = ''SERPAPI_API_KEY'' then Some ''k'' else None),
      json_dumps = dumps,
      post = (\<lambda>request.
        if data request =
             dumps (JObj [(''q'', JStr ''Perform a web search for rust and return the top results.'')])
        then Inr \<lparr>status_code = 200, resp_text = [],
                  json = Some (JObj [(''organic'', JArr [JObj [(''title'', JStr ''X'')]])])\<rparr>
        else Inr \<lparr>status_code = 200, resp_text = [],
                  json = Some (JObj [(''organic'', JArr [])])\<rparr>)\<rparr>"

definition sys_unreachable :: sys where
  "sys_unreachable =
     \<lparr>getenv = (\<lambda>name. if name = ''SERPAPI_API_KEY'' then Some ''k'' else None),
      json_dumps = dumps,
      post = (\<lambda>request. Inl TransportError)\<rparr>"

definition rust_golang :: DoubleSearchInput where
  "rust_golang = \<lparr>keyword1 = ''rust'', keyword2 = ''golang''\<rparr>"

text \<open>
  Modelled from the spec: an AgentRunner as section 4.4 describes it, the code of which
  is the agent library's. Its capability is \<open>SerpAPITool.search\<close>, which it invokes with
  the objective of the task. A failure of the capability propagates to the caller.
  The hits of the capability fill the response schema, which the runner exposes as
  the response of the task. Executions share no state.
\<close>

definition agent_runner :: "sys \<Rightarrow> unit agent" where
  "agent_runner s cfg t w =
     (case snd (search s (description t)) of
        Inl e \<Rightarrow> (Inl e, w)
      | Inr hits \<Rightarrow>
          (Inr (t\<lparr>response := Some \<lparr>keyword1_results = hits, keyword2_results = hits\<rparr>\<rparr>), w))"

text \<open>
  Four more agents. \<open>constant_agent r\<close> leaves the response \<open>r\<close> in every task and keeps
  no state. \<open>failing_second\<close> completes its first run and leaves no response in the
  second. \<open>distinct_agent\<close> fills both fields in each run, with other hits in its first
  run than in the later ones. \<open>counting_agent\<close> counts its runs and leaves the same
  response in each.
\<close>

definition constant_agent :: "DoubleSearchResponse \<Rightarrow> unit agent" where
  "constant_agent r cfg t w = (Inr (t\<lparr>response := Some r\<rparr>), w)"

definition failing_second :: "nat agent" where
  "failing_second cfg t n =
     (if n = 0 then (Inr (t\<lparr>response := Some \<lparr>keyword1_results = [hit_X], keyword2_results = []\<rparr>\<rparr>), Suc n)
      else (Inr t, Suc n))"

definition distinct_agent :: "nat agent" where
  "distinct_agent cfg t n =
     (if n = 0 then (Inr (t\<lparr>response := Some \<lparr>keyword1_results = [hit_X], keyword2_results = [hit_full]\<rparr>\<rparr>), Suc n)
      else (Inr (t\<lparr>response := Some \<lparr>keyword1_results = [hit_full, hit_full], keyword2_results = []\<rparr>\<rparr>), Suc n))"


section \<open>Properties of \<open>SerpAPITool.search\<close>\<close>

lemma search_with_key:
  assumes "getenv s ''SERPAPI_API_KEY'' = Some api_key" and "api_key \<noteq> []"
    and "post s (search_request s api_key query) = Inr resp"
  shows "search s query =
           ([search_request s api_key query],
            if status_code resp = 200 then on_ok resp
            else Inl (HTTPException 500 (''SerpAPI Request Failed: '' @ resp_text resp)))"
  using assms by (simp add: search_def Let_def)

lemma search_requests:
  assumes "getenv s ''SERPAPI_API_KEY'' = Some api_key" and "api_key \<noteq> []"
  shows "fst (search s query) = [search_request s api_key query]"
  using assms by (simp add: search_def Let_def split: sum.splits)

lemma make_results_length:
  "make_results es = Inr hs \<Longrightarrow> length hs = length es"
  by (induction es arbitrary: hs) (auto split: sum.splits)

lemma make_results_nth:
  "make_results es = Inr hs \<Longrightarrow> i < length es \<Longrightarrow> make_result (es ! i) = Inr (hs ! i)"
proof (induction es arbitrary: hs i)
  case Nil
  then show ?case by simp
next
  case (Cons e es)
  from Cons.prems(1) obtain h hs' where h: "make_result e = Inr h"
    and hs': "make_results es = Inr hs'" and hs: "hs = h # hs'"
    by (auto split: sum.splits)
  show ?case
  proof (cases i)
    case 0
    with h hs show ?thesis by simp
  next
    case (Suc j)
    with Cons.prems(2) have "j < length es" by simp
    with Cons.IH [OF hs'] have "make_result (es ! j) = Inr (hs' ! j)" .
    with Suc hs show ?thesis by simp
  qed
qed

lemma str_or_missing_get:
  "str_or_missing e k \<Longrightarrow> \<exists>v. dict_get e k (JStr d) = JStr v"
  by (auto simp: str_or_missing_def dict_get_def split: option.splits json_value.splits)

lemma make_result_shaped:
  assumes "entry_shaped e"
  shows "\<exists>h. make_result e = Inr h"
proof (cases e)
  case (JObj obj)
  with assms have "str_or_missing obj ''title''" "str_or_missing obj ''link''"
    "str_or_missing obj ''snippet''" by simp_all
  then obtain t l s where "dict_get obj ''title'' (JStr ''No Title'') = JStr t"
    "dict_get obj ''link'' (JStr ''#'') = JStr l"
    "dict_get obj ''snippet'' (JStr ''No Description'') = JStr s"
    using str_or_missing_get by metis
  with JObj show ?thesis by simp
qed (use assms in simp_all)

lemma make_results_shaped:
  "list_all entry_shaped es \<Longrightarrow> \<exists>hs. make_results es = Inr hs"
proof (induction es)
  case Nil
  then show ?case by simp
next
  case (Cons e es)
  from Cons.prems have "entry_shaped e" and "list_all entry_shaped es" by simp_all
  from make_result_shaped [OF this(1)] obtain h where h: "make_result e = Inr h" ..
  from Cons.IH [OF \<open>list_all entry_shaped es\<close>] obtain hs where "make_results es = Inr hs" ..
  with h show ?case by simp
qed

lemma SearchResult_init_Inr:
  "SearchResult_init a b c = Inr h \<Longrightarrow> a = JStr (title h) \<and> b = JStr (link h) \<and> c = JStr (snippet h)"
  by (cases "(a, b, c)" rule: SearchResult_init.cases) auto

lemma make_result_Inr:
  assumes "make_result e = Inr h"
  shows "\<exists>obj. e = JObj obj
           \<and> dict_get obj ''title'' (JStr ''No Title'') = JStr (title h)
           \<and> dict_get obj ''link'' (JStr ''#'') = JStr (link h)
           \<and> dict_get obj ''snippet'' (JStr ''No Description'') = JStr (snippet h)"
  using assms by (cases e) (auto dest: SearchResult_init_Inr)

lemma on_ok_organic:
  assumes "json resp = Some (JObj body)" and "map_of body ''organic'' = Some (JArr entries)"
  shows "on_ok resp = make_results (take 10 entries)"
  using assms by (simp add: on_ok_def dict_get_def)

lemma dict_get_JStr:
  assumes "dict_get e k (JStr d) = JStr v"
  shows "map_of e k = None \<longrightarrow> v = d" and "\<forall>x. map_of e k = Some x \<longrightarrow> x = JStr v"
    and "\<forall>x. map_of e k = Some (JStr x) \<longrightarrow> v = x"
  using assms by (cases "map_of e k"; simp add: dict_get_def)+

lemma make_result_fields:
  assumes "make_result (JObj e) = Inr h"
  shows "(map_of e ''title'' = None \<longrightarrow> title h = ''No Title'')
       \<and> (map_of e ''link'' = None \<longrightarrow> link h = ''#'')
       \<and> (map_of e ''snippet'' = None \<longrightarrow> snippet h = ''No Description'')
       \<and> (\<forall>v. map_of e ''title'' = Some (JStr v) \<longrightarrow> title h = v)
       \<and> (\<forall>v. map_of e ''link'' = Some (JStr v) \<longrightarrow> link h = v)
       \<and> (\<forall>v. map_of e ''snippet'' = Some (JStr v) \<longrightarrow> snippet h = v)"
proof -
  from make_result_Inr [OF assms] obtain e' where e': "JObj e = JObj e'"
    and t': "dict_get e' ''title'' (JStr ''No Title'') = JStr (title h)"
    and l': "dict_get e' ''link'' (JStr ''#'') = JStr (link h)"
    and s': "dict_get e' ''snippet'' (JStr ''No Description'') = JStr (snippet h)"
    by (elim exE conjE)
  from e' have eq: "e' = e" by simp
  note t = t' [unfolded eq] and l = l' [unfolded eq] and s = s' [unfolded eq]
  show ?thesis
    apply (intro conjI)
         apply (rule dict_get_JStr(1) [OF t])
        apply (rule dict_get_JStr(1) [OF l])
       apply (rule dict_get_JStr(1) [OF s])
      apply (rule dict_get_JStr(3) [OF t])
     apply (rule dict_get_JStr(3) [OF l])
    apply (rule dict_get_JStr(3) [OF s])
    done
qed

lemma sys_answering_facts:
  "getenv (sys_answering resp) ''SERPAPI_API_KEY'' = Some ''k''"
  "post (sys_answering resp) request = Inr resp"
  by (simp_all add: sys_answering_def)

lemma ok_response_facts:
  "status_code (ok_response body) = 200"
  "json (ok_response body) = Some body"
  by (simp_all add: ok_response_def)

text \<open>
  C5: when the provider API key is absent from the process environment (\<open>os.getenv\<close>
  gives \<open>None\<close>, or the empty string), \<open>search\<close> fails with the \<open>HTTPException\<close> for the
  missing key, and the list of requests it has sent is empty: it fails before any
  outbound request, and nothing is retried.
\<close>

theorem search_no_api_key:
  assumes "getenv s ''SERPAPI_API_KEY'' = None \<or> getenv s ''SERPAPI_API_KEY'' = Some []"
  shows "search s query = ([], Inl (HTTPException 500 ''SerpAPI API Key not found!''))"
  using assms by (auto simp: search_def)

theorem search_no_api_key_witness:
  "getenv sys_without_key ''SERPAPI_API_KEY'' = None
   \<and> search sys_without_key ''rust'' = ([], Inl (HTTPException 500 ''SerpAPI API Key not found!''))"
  using search_no_api_key [of sys_without_key "''rust''"] by (simp add: sys_without_key_def)


text \<open>
  C4: when the key is set and the provider answers with a status other than 200,
  \<open>search\<close> fails with the \<open>HTTPException\<close> whose detail ends with the raw text of the
  answer; it returns no hit, and the requests it has sent are the one request: nothing
  is retried.
\<close>

theorem search_status_not_200:
  assumes "getenv s ''SERPAPI_API_KEY'' = Some api_key" and "api_key \<noteq> []"
    and "post s (search_request s api_key query) = Inr resp"
    and "status_code resp \<noteq> 200"
  shows "search s query =
           ([search_request s api_key query],
            Inl (HTTPException 500 (''SerpAPI Request Failed: '' @ resp_text resp)))"
  using search_with_key [OF assms(1-3)] assms(4) by simp

theorem search_status_not_200_witness:
  "status_code \<lparr>status_code = 500, resp_text = ''quota'', json = None\<rparr> \<noteq> 200
   \<and> search (sys_answering \<lparr>status_code = 500, resp_text = ''quota'', json = None\<rparr>) ''golang'' =
       ([search_request (sys_answering \<lparr>status_code = 500, resp_text = ''quota'', json = None\<rparr>) ''k'' ''golang''],
        Inl (HTTPException 500 ''SerpAPI Request Failed: quota''))"
  using search_status_not_200 [of "sys_answering \<lparr>status_code = 500, resp_text = ''quota'', json = None\<rparr>"
      "''k''" "''golang''" "\<lparr>status_code = 500, resp_text = ''quota'', json = None\<rparr>"]
  by (simp add: sys_answering_def)


text \<open>
  C7: when the key is set, \<open>search\<close> sends exactly one request, and what it returns is
  what the provider answers to that request: a POST to the provider's endpoint whose
  payload is \<open>json.dumps\<close> of the object \<open>{"q": query}\<close>, with the query string as it was
  passed in, and whose headers carry the key as \<open>X-API-KEY\<close>.
\<close>

theorem search_sends_query_verbatim:
  assumes "getenv s ''SERPAPI_API_KEY'' = Some api_key" and "api_key \<noteq> []"
  shows "search s query =
           (let request =
                  \<lparr>url = ''https://google.serper.dev/search'',
                   headers = [(''X-API-KEY'', api_key), (''Content-Type'', ''application/json'')],
                   data = json_dumps s (JObj [(''q'', JStr query)])\<rparr>
            in ([request],
                case post s request of
                  Inl e \<Rightarrow> Inl e
                | Inr resp \<Rightarrow>
                    if status_code resp = 200 then on_ok resp
                    else Inl (HTTPException 500 (''SerpAPI Request Failed: '' @ resp_text resp))))"
  using assms by (simp add: search_def search_request_def Let_def split: sum.split)

theorem search_sends_query_verbatim_witness:
  "getenv sys_expecting ''SERPAPI_API_KEY'' = Some ''k''
   \<and> search sys_expecting '' Rust  LANG '' =
       ([\<lparr>url = ''https://google.serper.dev/search'',
          headers = [(''X-API-KEY'', ''k''), (''Content-Type'', ''application/json'')],
          data = ''{'' @ [CHR 0x22] @ ''q'' @ [CHR 0x22] @ '': '' @
                 [CHR 0x22] @ '' Rust  LANG '' @ [CHR 0x22] @ ''}''\<rparr>],
        Inr [hit_X])"
proof -
  have key: "getenv sys_expecting ''SERPAPI_API_KEY'' = Some ''k''"
    by (simp add: sys_expecting_def)
  have ne: "''k'' \<noteq> []" by simp
  have payload: "json_dumps sys_expecting (JObj [(''q'', JStr '' Rust  LANG '')]) =
      ''{'' @ [CHR 0x22] @ ''q'' @ [CHR 0x22] @ '': '' @
      [CHR 0x22] @ '' Rust  LANG '' @ [CHR 0x22] @ ''}''"
    by (simp add: sys_expecting_def dumps_str_def escape_char_def)
  have answer: "post sys_expecting
      \<lparr>url = ''https://google.serper.dev/search'',
       headers = [(''X-API-KEY'', ''k''), (''Content-Type'', ''application/json'')],
       data = ''{'' @ [CHR 0x22] @ ''q'' @ [CHR 0x22] @ '': '' @
              [CHR 0x22] @ '' Rust  LANG '' @ [CHR 0x22] @ ''}''\<rparr> =
      Inr \<lparr>status_code = 200, resp_text = [],
           json = Some (JObj [(''organic'', JArr [JObj [(''title'', JStr ''X'')]])])\<rparr>"
    by (simp add: sys_expecting_def)
  have hits: "on_ok \<lparr>status_code = 200, resp_text = [],
      json = Some (JObj [(''organic'', JArr [JObj [(''title'', JStr ''X'')]])])\<rparr> = Inr [hit_X]"
    by (simp add: on_ok_def dict_get_def hit_X_def)
  from search_sends_query_verbatim [OF key ne, of "'' Rust  LANG ''"]
  have "search sys_expecting '' Rust  LANG '' =
       ([\<lparr>url = ''https://google.serper.dev/search'',
          headers = [(''X-API-KEY'', ''k''), (''Content-Type'', ''application/json'')],
          data = ''{'' @ [CHR 0x22] @ ''q'' @ [CHR 0x22] @ '': '' @
                 [CHR 0x22] @ '' Rust  LANG '' @ [CHR 0x22] @ ''}''\<rparr>],
        Inr [hit_X])"
    unfolding Let_def payload answer by (simp add: hits)
  with key show ?thesis by (intro conjI)
qed


text \<open>
  C10: when the key is set and the provider answers with status 200 and a JSON object
  that has no \<open>organic\<close> field, or whose \<open>organic\<close> is the empty array, \<open>search\<close> returns
  the empty list and raises nothing.
\<close>

theorem search_no_organic:
  assumes "getenv s ''SERPAPI_API_KEY'' = Some api_key" and "api_key \<noteq> []"
    and "post s (search_request s api_key query) = Inr resp"
    and "status_code resp = 200"
    and "json resp = Some (JObj body)"
    and "map_of body ''organic'' = None \<or> map_of body ''organic'' = Some (JArr [])"
  shows "search s query = ([search_request s api_key query], Inr [])"
  using search_with_key [OF assms(1-3)] assms(4-6)
  by (auto simp: on_ok_def dict_get_def)

theorem search_no_organic_witness:
  "map_of [(''searchParameters'', JObj [])] ''organic'' = None
   \<and> search (sys_answering (ok_response (JObj [(''searchParameters'', JObj [])]))) ''rust'' =
       ([search_request (sys_answering (ok_response (JObj [(''searchParameters'', JObj [])]))) ''k'' ''rust''],
        Inr [])"
  using search_no_organic [of "sys_answering (ok_response (JObj [(''searchParameters'', JObj [])]))"
      "''k''" "''rust''" "ok_response (JObj [(''searchParameters'', JObj [])])"
      "[(''searchParameters'', JObj [])]"]
  by (simp add: sys_answering_def ok_response_def)

text \<open>
  C2: when the key is set and the provider answers with status 200 and a JSON object
  whose \<open>organic\<close> is a non-empty array, the first ten entries of which have the shape
  of the provider's interface, \<open>search\<close> returns a list of \<open>min 10 (length entries)\<close>
  hits, and its \<open>i\<close>-th hit is the one made from the \<open>i\<close>-th entry: the provider's order
  is kept.
\<close>

theorem search_truncates_in_order:
  assumes "getenv s ''SERPAPI_API_KEY'' = Some api_key" and "api_key \<noteq> []"
    and "post s (search_request s api_key query) = Inr resp"
    and "status_code resp = 200"
    and "json resp = Some (JObj body)"
    and "map_of body ''organic'' = Some (JArr entries)"
    and "entries \<noteq> []"
    and "list_all entry_shaped (take 10 entries)"
  shows "\<exists>hits. snd (search s query) = Inr hits
           \<and> length hits = min 10 (length entries)
           \<and> (\<forall>i < length hits. make_result (entries ! i) = Inr (hits ! i))"
proof -
  from make_results_shaped [OF assms(8)] obtain hits
    where hits: "make_results (take 10 entries) = Inr hits" ..
  have run: "snd (search s query) = Inr hits"
    using search_with_key [OF assms(1-3)] assms(4) on_ok_organic [OF assms(5,6)] hits by simp
  have len: "length hits = min 10 (length entries)"
    using make_results_length [OF hits] by (simp add: min.commute)
  have nth: "\<forall>i < length hits. make_result (entries ! i) = Inr (hits ! i)"
  proof (intro allI impI)
    fix i assume "i < length hits"
    with make_results_length [OF hits] have i: "i < length (take 10 entries)" by simp
    from make_results_nth [OF hits i] i show "make_result (entries ! i) = Inr (hits ! i)" by simp
  qed
  from run len nth show ?thesis by (intro exI [of _ hits] conjI)
qed

theorem search_truncates_in_order_witness:
  "eleven_entries \<noteq> [] \<and> list_all entry_shaped (take 10 eleven_entries)
   \<and> snd (search (sys_answering (ok_response (JObj [(''organic'', JArr eleven_entries)]))) ''rust'') =
       Inr [hit_full, hit_X, hit_X, hit_X, hit_X, hit_X, hit_X, hit_X, hit_X, hit_full]
   \<and> length [hit_full, hit_X, hit_X, hit_X, hit_X, hit_X, hit_X, hit_X, hit_X, hit_full] =
       min 10 (length eleven_entries)
   \<and> make_result (eleven_entries ! 9) =
       Inr ([hit_full, hit_X, hit_X, hit_X, hit_X, hit_X, hit_X, hit_X, hit_X, hit_full] ! 9)"
proof -
  let ?body = "[(''organic'', JArr eleven_entries)]"
  let ?resp = "ok_response (JObj ?body)"
  have shaped: "list_all entry_shaped (take 10 eleven_entries)"
    by (simp add: eleven_entries_def entry_X_def entry_full_def str_or_missing_def)
  have ne: "eleven_entries \<noteq> []" by (simp add: eleven_entries_def)
  have key: "''k'' \<noteq> []" by simp
  have org: "map_of ?body ''organic'' = Some (JArr eleven_entries)" by simp
  from search_truncates_in_order [where query = "''rust''", OF sys_answering_facts(1) key sys_answering_facts(2)
      ok_response_facts(1) ok_response_facts(2) org ne shaped]
  obtain hits where hits: "snd (search (sys_answering ?resp) ''rust'') = Inr hits"
    and len: "length hits = min 10 (length eleven_entries)"
    and nth: "\<forall>i < length hits. make_result (eleven_entries ! i) = Inr (hits ! i)"
    by (elim exE conjE)
  have "snd (search (sys_answering ?resp) ''rust'') =
      Inr [hit_full, hit_X, hit_X, hit_X, hit_X, hit_X, hit_X, hit_X, hit_X, hit_full]"
    by (simp add: search_def sys_answering_def ok_response_def on_ok_def dict_get_def
        eleven_entries_def entry_X_def entry_full_def hit_X_def hit_full_def Let_def)
  with hits have eq: "hits = [hit_full, hit_X, hit_X, hit_X, hit_X, hit_X, hit_X, hit_X, hit_X, hit_full]"
    by simp
  from len have "9 < length hits" by (simp add: eleven_entries_def)
  with nth have "make_result (eleven_entries ! 9) = Inr (hits ! 9)" by blast
  with hits shaped ne len show ?thesis unfolding eq by simp
qed

text \<open>
  C3: when the key is set and the provider answers with status 200 and an \<open>organic\<close>
  array whose first ten entries have the shape of the provider's interface, \<open>search\<close>
  returns hits, and the hit of an entry in reach of the cut has, for each of \<open>title\<close>,
  \<open>link\<close> and \<open>snippet\<close>, the default (\<open>No Title\<close>, \<open>#\<close>, \<open>No Description\<close>) where the
  entry lacks the field, and the entry's string, unchanged, where it has it.
\<close>

theorem search_defaults:
  assumes "getenv s ''SERPAPI_API_KEY'' = Some api_key" and "api_key \<noteq> []"
    and "post s (search_request s api_key query) = Inr resp"
    and "status_code resp = 200"
    and "json resp = Some (JObj body)"
    and "map_of body ''organic'' = Some (JArr entries)"
    and "list_all entry_shaped (take 10 entries)"
    and "i < min 10 (length entries)"
    and "entries ! i = JObj e"
  shows "\<exists>hits. snd (search s query) = Inr hits \<and> i < length hits
           \<and> (map_of e ''title'' = None \<longrightarrow> title (hits ! i) = ''No Title'')
           \<and> (map_of e ''link'' = None \<longrightarrow> link (hits ! i) = ''#'')
           \<and> (map_of e ''snippet'' = None \<longrightarrow> snippet (hits ! i) = ''No Description'')
           \<and> (\<forall>v. map_of e ''title'' = Some (JStr v) \<longrightarrow> title (hits ! i) = v)
           \<and> (\<forall>v. map_of e ''link'' = Some (JStr v) \<longrightarrow> link (hits ! i) = v)
           \<and> (\<forall>v. map_of e ''snippet'' = Some (JStr v) \<longrightarrow> snippet (hits ! i) = v)"
proof -
  from make_results_shaped [OF assms(7)] obtain hits
    where hits: "make_results (take 10 entries) = Inr hits" ..
  have run: "snd (search s query) = Inr hits"
    using search_with_key [OF assms(1-3)] assms(4) on_ok_organic [OF assms(5,6)] hits by simp
  from assms(8) have i: "i < length (take 10 entries)" by simp
  with make_results_length [OF hits] have len: "i < length hits" by simp
  from make_results_nth [OF hits i] i have "make_result (entries ! i) = Inr (hits ! i)" by simp
  then have "make_result (JObj e) = Inr (hits ! i)" by (simp only: assms(9))
  from run len make_result_fields [OF this] show ?thesis
    by (intro exI [of _ hits] conjI) (elim conjE, assumption)+
qed

theorem search_defaults_witness:
  "snd (search (sys_answering (ok_response (JObj [(''organic'', JArr [entry_X, entry_empty])]))) ''rust'') =
     Inr [hit_X, hit_default]
   \<and> title ([hit_X, hit_default] ! 0) = ''X''
   \<and> link ([hit_X, hit_default] ! 0) = ''#''
   \<and> snippet ([hit_X, hit_default] ! 0) = ''No Description''
   \<and> title ([hit_X, hit_default] ! 1) = ''No Title''
   \<and> link ([hit_X, hit_default] ! 1) = ''#''
   \<and> snippet ([hit_X, hit_default] ! 1) = ''No Description''"
proof -
  let ?body = "[(''organic'', JArr [entry_X, entry_empty])]"
  let ?resp = "ok_response (JObj ?body)"
  let ?s = "sys_answering ?resp"
  have key: "''k'' \<noteq> []" by simp
  have org: "map_of ?body ''organic'' = Some (JArr [entry_X, entry_empty])" by simp
  have shaped: "list_all entry_shaped (take 10 [entry_X, entry_empty])"
    by (simp add: entry_X_def entry_empty_def str_or_missing_def)
  have i0: "0 < min 10 (length [entry_X, entry_empty])" by simp
  have i1: "1 < min 10 (length [entry_X, entry_empty])" by simp
  have e0: "[entry_X, entry_empty] ! 0 = JObj [(''title'', JStr ''X'')]" by (simp add: entry_X_def)
  have e1: "[entry_X, entry_empty] ! 1 = JObj []" by (simp add: entry_empty_def)
  from search_defaults [where query = "''rust''", OF sys_answering_facts(1) key sys_answering_facts(2)
      ok_response_facts(1) ok_response_facts(2) org shaped i0 e0]
  obtain hits where run: "snd (search ?s ''rust'') = Inr hits"
    and t0: "\<forall>v. map_of [(''title'', JStr ''X'')] ''title'' = Some (JStr v) \<longrightarrow> title (hits ! 0) = v"
    and l0: "map_of [(''title'', JStr ''X'')] ''link'' = None \<longrightarrow> link (hits ! 0) = ''#''"
    and s0: "map_of [(''title'', JStr ''X'')] ''snippet'' = None \<longrightarrow> snippet (hits ! 0) = ''No Description''"
    by (elim exE conjE)
  from search_defaults [where query = "''rust''", OF sys_answering_facts(1) key sys_answering_facts(2)
      ok_response_facts(1) ok_response_facts(2) org shaped i1 e1]
  obtain hits' where run': "snd (search ?s ''rust'') = Inr hits'"
    and t1: "map_of ([] :: (string \<times> json_value) list) ''title'' = None
               \<longrightarrow> title (hits' ! 1) = ''No Title''"
    and l1: "map_of ([] :: (string \<times> json_value) list) ''link'' = None
               \<longrightarrow> link (hits' ! 1) = ''#''"
    and s1: "map_of ([] :: (string \<times> json_value) list) ''snippet'' = None
               \<longrightarrow> snippet (hits' ! 1) = ''No Description''"
    by (elim exE conjE)
  have eval: "snd (search ?s ''rust'') = Inr [hit_X, hit_default]"
    by (simp add: search_def sys_answering_def ok_response_def on_ok_def dict_get_def
        entry_X_def entry_empty_def hit_X_def hit_default_def Let_def)
  from run eval have h: "hits = [hit_X, hit_default]" by simp
  from run' eval have h': "hits' = [hit_X, hit_default]" by simp
  from t0 l0 s0 have "title (hits ! 0) = ''X''" "link (hits ! 0) = ''#''"
    "snippet (hits ! 0) = ''No Description''"
    by simp_all
  moreover from t1 l1 s1 have "title (hits' ! 1) = ''No Title''" "link (hits' ! 1) = ''#''"
    "snippet (hits' ! 1) = ''No Description''"
    by simp_all
  ultimately show ?thesis unfolding h h' using eval by (intro conjI)
qed

section \<open>Properties of \<open>perform_double_search\<close>\<close>

lemma perform_double_search_runs:
  assumes "agent search_agent (search_task1 inp) w = (o1, w1)"
    and "agent search_agent (search_task2 inp) w1 = (o2, w2)"
  shows "fst (perform_double_search agent inp w) =
     (case outcome o1 of
        Inl e \<Rightarrow> Inl e
      | Inr d1 \<Rightarrow>
          (case outcome o2 of
             Inl e \<Rightarrow> Inl e
           | Inr d2 \<Rightarrow>
               (case (d1, d2) of
                  (Some a, Some b) \<Rightarrow>
                    Inr [(''keyword1'', StrValue (keyword1 inp)),
                         (''keyword1_results'', ResultsValue (keyword1_results a)),
                         (''keyword2'', StrValue (keyword2 inp)),
                         (''keyword2_results'', ResultsValue (keyword2_results b))]
                | _ \<Rightarrow> Inl (HTTPException 500 ''Failed to fetch search results.''))))"
  unfolding perform_double_search_def outcome_def
  by (simp add: assms split: sum.split option.split)



text \<open>
  C1, as it is stated, does not hold. The handler tests the response of each task with
  \<open>not\<close>, and an instance of the response model passes that test whatever its lists
  hold. With the provider of \<open>sys_rust_only\<close> the run for the second keyword leaves a
  response whose lists are empty; the request succeeds, and the hit of the first
  keyword is returned beside the empty result. And a run that raises ends the request
  with its own exception, which the handler does not catch: with a provider out of
  reach that is the transport error, not the status 500 of the handler.
\<close>

theorem perform_double_search_returns_partial:
  "fst (agent_runner sys_rust_only search_agent (search_task2 rust_golang) ()) =
     Inr ((search_task2 rust_golang)
            \<lparr>response := Some \<lparr>keyword1_results = [], keyword2_results = []\<rparr>\<rparr>)
   \<and> fst (perform_double_search (agent_runner sys_rust_only) rust_golang ()) =
       Inr [(''keyword1'', StrValue ''rust''),
            (''keyword1_results'', ResultsValue [hit_X]),
            (''keyword2'', StrValue ''golang''),
            (''keyword2_results'', ResultsValue [])]
   \<and> fst (perform_double_search (agent_runner sys_unreachable) rust_golang ()) =
       Inl TransportError"
proof -
  have d1: "description (search_task1 rust_golang) =
      ''Perform a web search for rust and return the top results.''"
    by (simp add: search_task1_def Task_init_def rust_golang_def)
  have d2: "description (search_task2 rust_golang) =
      ''Perform a web search for golang and return the top results.''"
    by (simp add: search_task2_def Task_init_def rust_golang_def)
  have s1: "snd (search sys_rust_only ''Perform a web search for rust and return the top results.'') =
      Inr [hit_X]"
    by (simp add: search_def search_request_def sys_rust_only_def on_ok_def dict_get_def
        hit_X_def Let_def)
  have s2: "snd (search sys_rust_only ''Perform a web search for golang and return the top results.'') =
      Inr []"
    by (simp add: search_def search_request_def sys_rust_only_def on_ok_def dict_get_def
        dumps_str_def escape_char_def Let_def)
  have u: "snd (search sys_unreachable q) = Inl TransportError" for q
    by (simp add: search_def sys_unreachable_def Let_def)
  have r1: "agent_runner sys_rust_only search_agent (search_task1 rust_golang) () =
      (Inr ((search_task1 rust_golang)
              \<lparr>response := Some \<lparr>keyword1_results = [hit_X], keyword2_results = [hit_X]\<rparr>\<rparr>), ())"
    by (simp add: agent_runner_def d1 s1)
  have r2: "agent_runner sys_rust_only search_agent (search_task2 rust_golang) () =
      (Inr ((search_task2 rust_golang)
              \<lparr>response := Some \<lparr>keyword1_results = [], keyword2_results = []\<rparr>\<rparr>), ())"
    by (simp add: agent_runner_def d2 s2)
  have a: "fst (agent_runner sys_rust_only search_agent (search_task2 rust_golang) ()) =
      Inr ((search_task2 rust_golang)
             \<lparr>response := Some \<lparr>keyword1_results = [], keyword2_results = []\<rparr>\<rparr>)"
    by (simp add: r2)
  have b: "fst (perform_double_search (agent_runner sys_rust_only) rust_golang ()) =
      Inr [(''keyword1'', StrValue ''rust''),
           (''keyword1_results'', ResultsValue [hit_X]),
           (''keyword2'', StrValue ''golang''),
           (''keyword2_results'', ResultsValue [])]"
    using perform_double_search_runs
      [where agent = "agent_runner sys_rust_only" and inp = rust_golang and w = "()", OF r1 r2]
    by (simp add: outcome_def rust_golang_def)
  have c: "fst (perform_double_search (agent_runner sys_unreachable) rust_golang ()) =
      Inl TransportError"
    by (simp add: perform_double_search_def agent_runner_def u)
  from a b c show ?thesis by (intro conjI)
qed

text \<open>
  C1, amended: when a run of the agent for either task has raised, or has left no
  response in its task, \<open>perform_double_search\<close> fails the whole request and returns no
  results, also not those of the other task. It ends with the exception of the run
  that raised, and with the status 500 and \<open>Failed to fetch search results.\<close> when both
  runs returned and a response is absent. A response that is present counts as a
  result, empty lists or not.
\<close>

theorem perform_double_search_fails_whole_request:
  assumes "agent search_agent (search_task1 inp) w = (o1, w1)"
    and "agent search_agent (search_task2 inp) w1 = (o2, w2)"
    and "task_failed o1 \<or> task_failed o2"
  shows "fst (perform_double_search agent inp w) =
           Inl (case o1 of
                  Inl e \<Rightarrow> e
                | Inr t1 \<Rightarrow>
                    (case o2 of
                       Inl e \<Rightarrow> e
                     | Inr t2 \<Rightarrow> HTTPException 500 ''Failed to fetch search results.''))"
proof (cases o1)
  case (Inl e)
  then show ?thesis
    by (simp add: perform_double_search_runs [where agent = agent and inp = inp and w = w, OF assms(1,2)] outcome_def)
next
  case o1: (Inr t1)
  show ?thesis
  proof (cases o2)
    case (Inl e)
    with o1 show ?thesis
      by (simp add: perform_double_search_runs [where agent = agent and inp = inp and w = w, OF assms(1,2)] outcome_def)
  next
    case o2: (Inr t2)
    from assms(3) o1 o2 have "response t1 = None \<or> response t2 = None"
      by (simp add: task_failed_def)
    with o1 o2 show ?thesis
      by (cases "response t1"; cases "response t2")
        (simp_all add: perform_double_search_runs [where agent = agent and inp = inp and w = w, OF assms(1,2)] outcome_def)
  qed
qed

theorem perform_double_search_fails_whole_request_witness:
  "task_failed (fst (failing_second search_agent (search_task2 rust_golang) 1))
   \<and> fst (perform_double_search failing_second rust_golang 0) =
       Inl (HTTPException 500 ''Failed to fetch search results.'')"
proof -
  let ?t1 = "(search_task1 rust_golang)\<lparr>response := Some \<lparr>keyword1_results = [hit_X], keyword2_results = []\<rparr>\<rparr>"
  have r1: "failing_second search_agent (search_task1 rust_golang) 0 = (Inr ?t1, 1)"
    by (simp add: failing_second_def)
  have r2: "failing_second search_agent (search_task2 rust_golang) 1 = (Inr (search_task2 rust_golang), 2)"
    by (simp add: failing_second_def)
  have failed: "task_failed (Inr (search_task2 rust_golang))"
    by (simp add: task_failed_def search_task2_def Task_init_def)
  then have "task_failed (Inr ?t1) \<or> task_failed (Inr (search_task2 rust_golang))" ..
  from perform_double_search_fails_whole_request
      [where agent = failing_second and inp = rust_golang and w = 0, OF r1 r2 this] failed r2
  show ?thesis by simp
qed

text \<open>
  C6: when both runs of the agent return and leave a response in their tasks,
  \<open>perform_double_search\<close> returns the dict made of the two keywords of the request,
  unchanged, of \<open>keyword1_results\<close> of the first task's response and of
  \<open>keyword2_results\<close> of the second task's response; the other field of each response
  is not read.
\<close>

theorem perform_double_search_merges:
  assumes "agent search_agent (search_task1 inp) w = (Inr t1, w1)"
    and "agent search_agent (search_task2 inp) w1 = (Inr t2, w2)"
    and "response t1 = Some r1"
    and "response t2 = Some r2"
  shows "fst (perform_double_search agent inp w) =
           Inr [(''keyword1'', StrValue (keyword1 inp)),
                (''keyword1_results'', ResultsValue (keyword1_results r1)),
                (''keyword2'', StrValue (keyword2 inp)),
                (''keyword2_results'', ResultsValue (keyword2_results r2))]"
  by (simp add: perform_double_search_runs [where agent = agent and inp = inp and w = w, OF assms(1,2)] outcome_def assms(3,4))

theorem perform_double_search_merges_witness:
  "fst (perform_double_search distinct_agent rust_golang 0) =
     Inr [(''keyword1'', StrValue ''rust''),
          (''keyword1_results'', ResultsValue [hit_X]),
          (''keyword2'', StrValue ''golang''),
          (''keyword2_results'', ResultsValue [])]"
proof -
  let ?r1 = "\<lparr>keyword1_results = [hit_X], keyword2_results = [hit_full]\<rparr>"
  let ?r2 = "\<lparr>keyword1_results = [hit_full, hit_full], keyword2_results = []\<rparr>"
  let ?t1 = "(search_task1 rust_golang)\<lparr>response := Some ?r1\<rparr>"
  let ?t2 = "(search_task2 rust_golang)\<lparr>response := Some ?r2\<rparr>"
  have r1: "distinct_agent search_agent (search_task1 rust_golang) 0 = (Inr ?t1, 1)"
    by (simp add: distinct_agent_def)
  have r2: "distinct_agent search_agent (search_task2 rust_golang) 1 = (Inr ?t2, 2)"
    by (simp add: distinct_agent_def)
  have s1: "response ?t1 = Some ?r1" by simp
  have s2: "response ?t2 = Some ?r2" by simp
  from perform_double_search_merges
      [where agent = distinct_agent and inp = rust_golang and w = 0, OF r1 r2 s1 s2]
  show ?thesis by (simp add: rust_golang_def)
qed



section \<open>Properties of the result schema\<close>

lemma validate_SearchResult_to_json:
  "validate_SearchResult path (SearchResult_to_json h) = Inr h"
  by (simp add: SearchResult_to_json_def validate_str_def)

lemma validate_list_to_json:
  "validate_list path i (map SearchResult_to_json hs) = Inr hs"
  by (induction hs arbitrary: i) (simp_all add: validate_SearchResult_to_json)

text \<open>
  C8: a \<open>DoubleSearchResponse\<close> written out by the serializer of the result schema and
  read back by its validator is the response it was, field for field. This holds for
  every response, and so for those built from two non-empty lists of hits.
\<close>

theorem DoubleSearchResponse_round_trip:
  "validate_DoubleSearchResponse (DoubleSearchResponse_to_json r) = Inr r"
  by (simp add: DoubleSearchResponse_to_json_def validate_results_def validate_list_to_json)

theorem DoubleSearchResponse_round_trip_witness:
  "validate_DoubleSearchResponse
     (JObj [(''keyword1_results'',
             JArr [JObj [(''title'', JStr ''X''), (''link'', JStr ''#''),
                         (''snippet'', JStr ''No Description'')]]),
            (''keyword2_results'',
             JArr [JObj [(''title'', JStr ''T''), (''link'', JStr ''L''), (''snippet'', JStr ''S'')]])]) =
     Inr \<lparr>keyword1_results = [hit_X], keyword2_results = [hit_full]\<rparr>"
  using DoubleSearchResponse_round_trip [of "\<lparr>keyword1_results = [hit_X], keyword2_results = [hit_full]\<rparr>"]
  by (simp add: DoubleSearchResponse_to_json_def SearchResult_to_json_def hit_X_def hit_full_def)

end
